theory Spec2Isabelle
  imports Main "HOL-Library.Sublist" "HOL-Library.Char_ord" "HOL-Library.List_Lexorder"
    "HOL-Library.Multiset" "HOL-Library.AList"
begin

section \<open>The schema document\<close>

text \<open>
  \<^verbatim>\<open>loadSchema\<close> decodes the response body into an \<^verbatim>\<open>interface{}\<close>: an untyped
  tree of \<^verbatim>\<open>nil\<close>, \<^verbatim>\<open>bool\<close>, \<^verbatim>\<open>float64\<close>, \<^verbatim>\<open>string\<close>, \<^verbatim>\<open>[]interface{}\<close> and
  \<^verbatim>\<open>map[string]interface{}\<close>.  A map is written as an association list; \<open>field\<close>
  is the lookup \<^verbatim>\<open>m[k]\<close>, which gives \<^verbatim>\<open>nil\<close> (\<open>JNull\<close>) for a key that is not
  there.  Strings are byte strings, as in Go.  The payload of a number is never read by
  the generator.
\<close>

datatype json =
    JNull
  | JBool bool
  | JNumber int
  | JString string
  | JArray "json list"
  | JObject "(string \<times> json) list"

type_synonym object = "(string \<times> json) list"

definition field :: "object \<Rightarrow> string \<Rightarrow> json" where
  "field m k = (case map_of m k of None \<Rightarrow> JNull | Some v \<Rightarrow> v)"

section \<open>Errors\<close>

text \<open>
  Every way in which \<^verbatim>\<open>run\<close> stops early is a value of \<open>error\<close>. The first three
  are returned by \<^verbatim>\<open>run\<close> and \<^verbatim>\<open>loadSchema\<close>; the next three are the panics of the
  template functions (a failed type assertion \<^verbatim>\<open>x.(T)\<close>, the explicit \<^verbatim>\<open>panic\<close> of
  \<^verbatim>\<open>typeString\<close> with the offending string, a slice expression out of range);
  \<open>HelperFailed\<close> is a failure inside the imported \<^verbatim>\<open>ident\<close> package; \<open>OffShape\<close>
  stands for a template action applied to a value that does not have the type the action
  needs (a field that should hold a string holds something else, and so on);
  \<open>WriteFailed\<close> is an error of \<^verbatim>\<open>ioutil.WriteFile\<close>.
\<close>

datatype error =
    TokenNotSet
  | TransportFailed string
  | DecodeFailed string
  | InterfaceConversion
  | NullableWithoutStar string
  | SliceOutOfRange
  | HelperFailed string
  | OffShape
  | WriteFailed string

type_synonym 'a result = "error + 'a"

definition bind :: "'a result \<Rightarrow> ('a \<Rightarrow> 'b result) \<Rightarrow> 'b result" where
  "bind r f = (case r of Inl e \<Rightarrow> Inl e | Inr x \<Rightarrow> f x)"

text \<open>The type assertions \<^verbatim>\<open>x.(string)\<close> and \<^verbatim>\<open>x.(map[string]interface{})\<close>.\<close>

fun assert_string :: "json \<Rightarrow> string result" where
  "assert_string (JString s) = Inr s"
| "assert_string _ = Inl InterfaceConversion"

fun assert_map :: "json \<Rightarrow> object result" where
  "assert_map (JObject m) = Inr m"
| "assert_map _ = Inl InterfaceConversion"

section \<open>The type-string resolver\<close>

text \<open>
  \<^verbatim>\<open>typeString\<close> switches on \<^verbatim>\<open>t["kind"]\<close>: an interface value equals the string
  constant of a case only when it holds that very string, so a missing or non-string
  kind takes the default branch.  \<^verbatim>\<open>strings.HasPrefix(s, "*")\<close> is \<open>prefix ''*'' s\<close>
  and \<^verbatim>\<open>s[1:]\<close> is \<open>drop 1 s\<close>.
\<close>

lemma size_map_of:
  "map_of m k = Some v \<Longrightarrow> size v < Suc (size_list (size_prod (\<lambda>_. 0) size) m)"
  by (induction m) (auto split: if_splits)

lemma size_field_object:
  "field m k = JObject m' \<Longrightarrow>
    size_list (size_prod (\<lambda>_. 0) size) m' < size_list (size_prod (\<lambda>_. 0) size) m"
  using size_map_of [of m k "JObject m'"]
  by (auto simp: field_def split: option.splits)

function typeString :: "object \<Rightarrow> string result" where
  "typeString t =
    (if field t ''kind'' = JString ''NON_NULL'' then
       (case field t ''ofType'' of
          JObject inner \<Rightarrow>
            (case typeString inner of
               Inl e \<Rightarrow> Inl e
             | Inr s \<Rightarrow>
                 if \<not> prefix ''*'' s then Inl (NullableWithoutStar s)
                 else Inr (drop 1 s))
        | _ \<Rightarrow> Inl InterfaceConversion)
     else if field t ''kind'' = JString ''LIST'' then
       (case field t ''ofType'' of
          JObject inner \<Rightarrow>
            (case typeString inner of
               Inl e \<Rightarrow> Inl e
             | Inr s \<Rightarrow> Inr (''*[]'' @ s))
        | _ \<Rightarrow> Inl InterfaceConversion)
     else
       (case field t ''name'' of
          JString n \<Rightarrow> Inr (''*'' @ n)
        | _ \<Rightarrow> Inl InterfaceConversion))"
  by pat_completeness auto
termination
  by (relation "measure (size_list (size_prod (\<lambda>_. 0) size))")
     (auto dest: size_field_object)

text \<open>Nodes used as concrete inputs below.\<close>

definition named :: "string \<Rightarrow> string \<Rightarrow> object" where
  "named k n = [(''kind'', JString k), (''name'', JString n), (''ofType'', JNull)]"

definition wrapper :: "string \<Rightarrow> object \<Rightarrow> object" where
  "wrapper k x = [(''kind'', JString k), (''name'', JNull), (''ofType'', JObject x)]"

section \<open>The template functions\<close>

text \<open>
  The generator calls functions it does not define: \<^verbatim>\<open>strings.ToLower\<close>,
  \<^verbatim>\<open>strconv.Quote\<close>, \<^verbatim>\<open>sort.Slice\<close>, the two conversions of the \<^verbatim>\<open>ident\<close> package,
  \<^verbatim>\<open>format.Source\<close> and \<^verbatim>\<open>json.Decoder.Decode\<close>.  They are parameters of the model,
  collected in one record, so that every theorem holds whatever these functions compute.
  \<open>sort_Slice\<close> takes the comparison and the slice and gives the slice as
  \<^verbatim>\<open>sort.Slice\<close> leaves it.  The conversions of \<^verbatim>\<open>ident\<close> may fail.
  \<open>format_Source\<close> and \<open>Decode\<close> give \<open>Inl\<close> of the error message or \<open>Inr\<close> of the
  result.
\<close>

record golib =
  ToLower :: "string \<Rightarrow> string"
  Quote :: "string \<Rightarrow> string"
  sort_Slice :: "(json \<Rightarrow> json \<Rightarrow> bool) \<Rightarrow> json list \<Rightarrow> json list"
  LowerCamelCase_ToMixedCaps :: "string \<Rightarrow> string result"
  ScreamingSnakeCase_ToMixedCaps :: "string \<Rightarrow> string result"
  format_Source :: "string \<Rightarrow> string + string"
  Decode :: "string \<Rightarrow> string + json"

definition NL :: string where
  "NL = [CHR 0x0A]"

definition TAB :: string where
  "TAB = [CHR 0x09]"

definition DQ :: string where
  "DQ = [CHR 0x22]"

definition BQ :: string where
  "BQ = [CHR 0x60]"

text \<open>\<^verbatim>\<open>"internal": func(s string) bool { return strings.HasPrefix(s, "__") }\<close>\<close>

definition internal :: "string \<Rightarrow> bool" where
  "internal s = prefix ''__'' s"

text \<open>\<^verbatim>\<open>"join": strings.Join\<close>\<close>

fun join :: "string list \<Rightarrow> string \<Rightarrow> string" where
  "join [] sep = []"
| "join [a] sep = a"
| "join (a # b # rest) sep = a @ sep @ join (b # rest) sep"

text \<open>
  \<^verbatim>\<open>sortByName\<close> sorts the slice in place with \<^verbatim>\<open>sort.Slice\<close> and returns it.  The
  comparison asserts that both elements are maps with a string under \<^verbatim>\<open>name\<close>
  (\<open>name_of\<close>) and compares the names as byte strings.  \<^verbatim>\<open>sort.Slice\<close> compares
  nothing in a slice of fewer than two elements, and compares every element with some
  other element otherwise; so the call panics exactly when the slice has two elements or
  more and one of them fails the assertions.
\<close>

definition name_of :: "json \<Rightarrow> string result" where
  "name_of v = bind (assert_map v) (\<lambda>m. assert_string (field m ''name''))"

definition less_name :: "json \<Rightarrow> json \<Rightarrow> bool" where
  "less_name a b =
    (case (name_of a, name_of b) of (Inr ni, Inr nj) \<Rightarrow> ni < nj | _ \<Rightarrow> False)"

definition sortByName :: "golib \<Rightarrow> json list \<Rightarrow> json list result" where
  "sortByName L types =
    (if length types < 2 then Inr types
     else if list_all (\<lambda>v. \<not> isl (name_of v)) types then Inr (sort_Slice L less_name types)
     else Inl InterfaceConversion)"

text \<open>
  \<^verbatim>\<open>inputObjects\<close>: the loop appends the name of every element of kind
  \<^verbatim>\<open>INPUT_OBJECT\<close>; every element passes three assertions on the way (a map, a string
  kind, and for the selected ones a string name).  \<^verbatim>\<open>sort.Strings\<close> then sorts the
  names; the result of sorting strings is unique, so it is \<open>sort\<close>.
\<close>

fun inputObjects_loop :: "json list \<Rightarrow> string list \<Rightarrow> string list result" where
  "inputObjects_loop [] names = Inr names"
| "inputObjects_loop (t # types) names =
    bind (assert_map t) (\<lambda>m.
    bind (assert_string (field m ''kind'')) (\<lambda>kind.
      if kind \<noteq> ''INPUT_OBJECT'' then inputObjects_loop types names
      else bind (assert_string (field m ''name'')) (\<lambda>n.
        inputObjects_loop types (names @ [n]))))"

definition inputObjects :: "json list \<Rightarrow> string list result" where
  "inputObjects types = bind (inputObjects_loop types []) (\<lambda>names. Inr (sort names))"

text \<open>
  \<^verbatim>\<open>identifier\<close> (here \<open>identifier_fn\<close>: the plain name is a keyword of Isabelle) and
  \<^verbatim>\<open>enumIdentifier\<close> are the two conversions of \<^verbatim>\<open>ident\<close>.
\<close>

definition identifier_fn :: "golib \<Rightarrow> string \<Rightarrow> string result" where
  "identifier_fn L name = LowerCamelCase_ToMixedCaps L name"

definition enumIdentifier :: "golib \<Rightarrow> string \<Rightarrow> string result" where
  "enumIdentifier L name = ScreamingSnakeCase_ToMixedCaps L name"

text \<open>
  \<^verbatim>\<open>endSentence\<close>: the slice expression \<^verbatim>\<open>s[0:1]\<close> panics when \<^verbatim>\<open>s\<close> is empty.  In the
  \<^verbatim>\<open>switch\<close> the \<^verbatim>\<open>default\<close> branch, although written first, is taken only when
  neither \<^verbatim>\<open>case\<close> holds.
\<close>

definition endSentence :: "golib \<Rightarrow> string \<Rightarrow> string result" where
  "endSentence L s0 =
    (if length s0 < 1 then Inl SliceOutOfRange
     else
       let s1 = ToLower L (take 1 s0) @ drop 1 s0;
           s2 = (if prefix ''autogenerated '' s1 then ''is an '' @ s1
                 else if prefix ''specifies '' s1 then s1
                 else ''represents '' @ s1);
           s3 = (if \<not> suffix ''.'' s2 then s2 @ ''.'' else s2)
       in Inr s3)"

definition fullSentence :: "string \<Rightarrow> string" where
  "fullSentence s = (if \<not> suffix ''.'' s then s @ ''.'' else s)"

text \<open>
  A library for evaluating examples.  On the inputs used below its first five functions
  compute what the Go functions compute: \<open>ToLower\<close> maps the ASCII capitals to small
  letters, \<open>Quote\<close> puts a string of plain letters in double quotes, \<open>sort_Slice\<close>
  is an insertion sort (what \<^verbatim>\<open>sort.Slice\<close> runs on a slice of a few elements), and
  the conversions of \<^verbatim>\<open>ident\<close> capitalise a single word.  The formatter and the
  decoder are stand-ins, chosen so that both outcomes occur: the formatter rejects the
  buffers that mention \<^verbatim>\<open>struct\<close> and gives every other buffer back as it is, and
  the decoder rejects every body.
\<close>

definition ascii_lower :: "char \<Rightarrow> char" where
  "ascii_lower c =
    (case map_of (zip ''ABCDEFGHIJKLMNOPQRSTUVWXYZ'' ''abcdefghijklmnopqrstuvwxyz'') c of
       None \<Rightarrow> c | Some d \<Rightarrow> d)"

definition ascii_upper :: "char \<Rightarrow> char" where
  "ascii_upper c =
    (case map_of (zip ''abcdefghijklmnopqrstuvwxyz'' ''ABCDEFGHIJKLMNOPQRSTUVWXYZ'') c of
       None \<Rightarrow> c | Some d \<Rightarrow> d)"

fun insert_sorted :: "('a \<Rightarrow> 'a \<Rightarrow> bool) \<Rightarrow> 'a \<Rightarrow> 'a list \<Rightarrow> 'a list" where
  "insert_sorted lt x [] = [x]"
| "insert_sorted lt x (y # ys) =
    (if lt x y then x # y # ys else y # insert_sorted lt x ys)"

definition insertion_sort :: "('a \<Rightarrow> 'a \<Rightarrow> bool) \<Rightarrow> 'a list \<Rightarrow> 'a list" where
  "insertion_sort lt xs = foldr (insert_sorted lt) (rev xs) []"

definition capitalise :: "string \<Rightarrow> string" where
  "capitalise s = map ascii_upper (take 1 s) @ map ascii_lower (drop 1 s)"

fun mentions :: "string \<Rightarrow> string \<Rightarrow> bool" where
  "mentions w [] = (w = [])"
| "mentions w (c # cs) = (prefix w (c # cs) \<or> mentions w cs)"

definition example_lib :: golib where
  "example_lib =
    \<lparr> ToLower = map ascii_lower,
      Quote = (\<lambda>s. DQ @ s @ DQ),
      sort_Slice = insertion_sort,
      LowerCamelCase_ToMixedCaps = (\<lambda>s. Inr (capitalise s)),
      ScreamingSnakeCase_ToMixedCaps = (\<lambda>s. Inr (capitalise s)),
      format_Source = (\<lambda>b. if mentions ''struct'' b then Inl ''expected declaration'' else Inr b),
      Decode = (\<lambda>b. Inl ''unexpected end of JSON input'') \<rparr>"

section \<open>The templates\<close>

text \<open>
  Each template is the function that executing it computes: the rendered text, or the
  error that stops the execution.  A \<^verbatim>\<open>{{range}}\<close> is a recursion over the list that
  concatenates what its body renders and stops at the first error; an \<^verbatim>\<open>{{if}}\<close> is an
  \<open>if\<close>; \<^verbatim>\<open>{{template "enum" .}}\<close> is a call.  The trim markers \<^verbatim>\<open>{{-\<close> and \<^verbatim>\<open>-}}\<close>
  around \<^verbatim>\<open>define\<close> and its \<^verbatim>\<open>end\<close> remove the white space next to them, so nothing
  follows the outer \<^verbatim>\<open>range\<close> in either file and a defined template neither starts nor
  ends with a line break.

  The actions read fields of the document.  Where an action needs a string, a list or a
  map and the document holds something else, the model stops with \<open>OffShape\<close>; it does
  not follow what the template package does with such a value.  A panic of a template
  function ends the execution with that error.
\<close>

fun want_string :: "json \<Rightarrow> string result" where
  "want_string (JString s) = Inr s"
| "want_string _ = Inl OffShape"

fun want_list :: "json \<Rightarrow> json list result" where
  "want_list (JArray vs) = Inr vs"
| "want_list _ = Inl OffShape"

fun want_map :: "json \<Rightarrow> object result" where
  "want_map (JObject m) = Inr m"
| "want_map _ = Inl OffShape"

fun range_tmpl :: "('a \<Rightarrow> string result) \<Rightarrow> 'a list \<Rightarrow> string result" where
  "range_tmpl body [] = Inr []"
| "range_tmpl body (x # xs) =
    bind (body x) (\<lambda>a. bind (range_tmpl body xs) (\<lambda>b. Inr (a @ b)))"

text \<open>
  The body of \<^verbatim>\<open>{{range .enumValues}}\<close> in the template \<^verbatim>\<open>enum\<close>; \<open>tname\<close> is
  \<^verbatim>\<open>$.name\<close>, the name of the enum type.
\<close>

definition enum_const :: "golib \<Rightarrow> string \<Rightarrow> json \<Rightarrow> string result" where
  "enum_const L tname dot =
    bind (want_map dot) (\<lambda>m.
    bind (want_string (field m ''name'')) (\<lambda>n.
    bind (enumIdentifier L n) (\<lambda>ident.
    bind (want_string (field m ''description'')) (\<lambda>d.
      Inr (NL @ TAB @ tname @ ident @ '' '' @ tname @ '' = '' @ Quote L n @ '' // ''
           @ fullSentence d)))))"

text \<open>The template \<^verbatim>\<open>enum\<close>.\<close>

definition tmpl_enum :: "golib \<Rightarrow> json \<Rightarrow> string result" where
  "tmpl_enum L dot =
    bind (want_map dot) (\<lambda>m.
    bind (want_string (field m ''name'')) (\<lambda>name.
    bind (want_string (field m ''description'')) (\<lambda>description.
    bind (endSentence L description) (\<lambda>sentence.
    bind (want_list (field m ''enumValues'')) (\<lambda>enumValues.
    bind (range_tmpl (enum_const L name) enumValues) (\<lambda>consts.
      Inr (''// '' @ name @ '' '' @ sentence @ NL
           @ ''type '' @ name @ '' string'' @ NL
           @ NL
           @ ''// '' @ fullSentence description @ NL
           @ ''const ('' @ consts @ NL
           @ '')'')))))))"

text \<open>
  The two bodies of \<^verbatim>\<open>{{range .inputFields}}\<close> in the template \<^verbatim>\<open>inputObject\<close>.  The
  first renders a field when \<^verbatim>\<open>eq .type.kind "NON_NULL"\<close>, the second when
  \<^verbatim>\<open>ne .type.kind "NON_NULL"\<close>; \<open>type_kind\<close> is \<^verbatim>\<open>.type.kind\<close>.
\<close>

definition type_kind :: "json \<Rightarrow> string result" where
  "type_kind dot =
    bind (want_map dot) (\<lambda>m.
    bind (want_map (field m ''type'')) (\<lambda>ty.
      want_string (field ty ''kind'')))"

definition required_field :: "golib \<Rightarrow> json \<Rightarrow> string result" where
  "required_field L dot =
    bind (want_map dot) (\<lambda>m.
    bind (want_string (field m ''description'')) (\<lambda>description.
    bind (want_string (field m ''name'')) (\<lambda>name.
    bind (identifier_fn L name) (\<lambda>ident.
    bind (want_map (field m ''type'')) (\<lambda>ty.
    bind (typeString ty) (\<lambda>tystr.
      Inr (NL @ TAB @ ''// '' @ fullSentence description @ '' (Required.)'' @ NL
           @ TAB @ ident @ '' '' @ tystr @ '' '' @ BQ @ ''json:'' @ DQ @ name @ DQ @ BQ)))))))"

definition optional_field :: "golib \<Rightarrow> json \<Rightarrow> string result" where
  "optional_field L dot =
    bind (want_map dot) (\<lambda>m.
    bind (want_string (field m ''description'')) (\<lambda>description.
    bind (want_string (field m ''name'')) (\<lambda>name.
    bind (identifier_fn L name) (\<lambda>ident.
    bind (want_map (field m ''type'')) (\<lambda>ty.
    bind (typeString ty) (\<lambda>tystr.
      Inr (NL @ TAB @ ''// '' @ fullSentence description @ '' (Optional.)'' @ NL
           @ TAB @ ident @ '' '' @ tystr @ '' '' @ BQ @ ''json:'' @ DQ @ name
           @ '',omitempty'' @ DQ @ BQ)))))))"

definition if_required :: "golib \<Rightarrow> json \<Rightarrow> string result" where
  "if_required L dot =
    bind (type_kind dot) (\<lambda>kind.
      if kind = ''NON_NULL'' then required_field L dot else Inr [])"

definition if_optional :: "golib \<Rightarrow> json \<Rightarrow> string result" where
  "if_optional L dot =
    bind (type_kind dot) (\<lambda>kind.
      if kind \<noteq> ''NON_NULL'' then optional_field L dot else Inr [])"

text \<open>The template \<^verbatim>\<open>inputObject\<close>.\<close>

definition tmpl_inputObject :: "golib \<Rightarrow> json \<Rightarrow> string result" where
  "tmpl_inputObject L dot =
    bind (want_map dot) (\<lambda>m.
    bind (want_string (field m ''name'')) (\<lambda>name.
    bind (want_string (field m ''description'')) (\<lambda>description.
    bind (endSentence L description) (\<lambda>sentence.
    bind (want_list (field m ''inputFields'')) (\<lambda>inputFields.
    bind (range_tmpl (if_required L) inputFields) (\<lambda>required.
    bind (range_tmpl (if_optional L) inputFields) (\<lambda>optional.
      Inr (''// '' @ name @ '' '' @ sentence @ NL
           @ ''type '' @ name @ '' struct '' @ ''{'' @ required @ NL
           @ optional @ NL
           @ ''}''))))))))"

text \<open>
  The bodies of the outer \<^verbatim>\<open>{{range .data.__schema.types | sortByName}}\<close>: in
  \<^verbatim>\<open>enum.go\<close> the condition is \<^verbatim>\<open>and (eq .kind "ENUM") (not (internal .name))\<close>, in
  \<^verbatim>\<open>input.go\<close> it is \<^verbatim>\<open>eq .kind "INPUT_OBJECT"\<close>.
\<close>

definition enum_item :: "golib \<Rightarrow> json \<Rightarrow> string result" where
  "enum_item L dot =
    bind (want_map dot) (\<lambda>m.
    bind (want_string (field m ''kind'')) (\<lambda>kind.
    bind (want_string (field m ''name'')) (\<lambda>name.
      if kind = ''ENUM'' \<and> \<not> internal name
      then bind (tmpl_enum L dot) (\<lambda>decl. Inr (NL @ decl @ NL))
      else Inr [])))"

definition input_item :: "golib \<Rightarrow> json \<Rightarrow> string result" where
  "input_item L dot =
    bind (want_map dot) (\<lambda>m.
    bind (want_string (field m ''kind'')) (\<lambda>kind.
      if kind = ''INPUT_OBJECT''
      then bind (tmpl_inputObject L dot) (\<lambda>decl. Inr (NL @ decl @ NL))
      else Inr []))"

text \<open>
  \<^verbatim>\<open>.data.__schema.types\<close>, and the document after \<^verbatim>\<open>sortByName\<close> has sorted that
  slice: \<^verbatim>\<open>sort.Slice\<close> works in place, on the slice that the document holds.
\<close>

definition schema_types :: "json \<Rightarrow> json list result" where
  "schema_types schema =
    bind (want_map schema) (\<lambda>root.
    bind (want_map (field root ''data'')) (\<lambda>data.
    bind (want_map (field data ''__schema'')) (\<lambda>sch.
      want_list (field sch ''types''))))"

definition set_types :: "json \<Rightarrow> json list \<Rightarrow> json" where
  "set_types schema types =
    (case schema of
       JObject root \<Rightarrow>
         (case field root ''data'' of
            JObject data \<Rightarrow>
              (case field data ''__schema'' of
                 JObject sch \<Rightarrow>
                   JObject (AList.update ''data''
                     (JObject (AList.update ''__schema''
                       (JObject (AList.update ''types'' (JArray types) sch)) data)) root)
               | _ \<Rightarrow> schema)
          | _ \<Rightarrow> schema)
     | _ \<Rightarrow> schema)"

text \<open>
  The two files.  Executing a template gives the rendered buffer and the document as the
  execution leaves it.
\<close>

type_synonym template = "golib \<Rightarrow> json \<Rightarrow> (string \<times> json) result"

definition enum_header :: string where
  "enum_header =
    ''// Code generated by gen.go; DO NOT EDIT.'' @ NL
    @ NL
    @ ''package githubql'' @ NL"

definition enum_go :: template where
  "enum_go L schema =
    bind (schema_types schema) (\<lambda>types.
    bind (sortByName L types) (\<lambda>sorted.
    bind (range_tmpl (enum_item L) sorted) (\<lambda>decls.
      Inr (enum_header @ decls, set_types schema sorted))))"

definition input_header :: "string list \<Rightarrow> string" where
  "input_header names =
    ''// Code generated by gen.go; DO NOT EDIT.'' @ NL
    @ NL
    @ ''package githubql'' @ NL
    @ NL
    @ ''// Input represents one of the Input structs:'' @ NL
    @ ''//'' @ NL
    @ ''// '' @ join names '', '' @ ''.'' @ NL
    @ ''type Input interface{}'' @ NL"

definition input_go :: template where
  "input_go L schema =
    bind (schema_types schema) (\<lambda>types.
    bind (inputObjects types) (\<lambda>names.
    bind (sortByName L types) (\<lambda>sorted.
    bind (range_tmpl (input_item L) sorted) (\<lambda>decls.
      Inr (input_header names @ decls, set_types schema sorted)))))"

text \<open>\<^verbatim>\<open>var templates = map[string]*template.Template{ ... }\<close>\<close>

definition templates :: "(string \<times> template) list" where
  "templates = [(''enum.go'', enum_go), (''input.go'', input_go)]"

section \<open>The run\<close>

text \<open>
  What the process finds around it: the environment variables, the network (the
  construction of the request, and the answer to it given the \<^verbatim>\<open>Authorization\<close>
  header: an error or the body), and the outcome of writing a file.
\<close>

record os =
  LookupEnv :: "string \<Rightarrow> string option"
  NewRequest :: "string \<Rightarrow> string \<Rightarrow> string option"
  http_Do :: "string \<Rightarrow> string + string"
  WriteFile :: "string \<Rightarrow> string \<Rightarrow> string option"

text \<open>
  What the process leaves behind: the lines printed on standard output, the lines logged
  on standard error, and the files written, oldest first; \<open>written\<close> records the calls
  of \<^verbatim>\<open>ioutil.WriteFile\<close> that returned no error.
\<close>

record world =
  stdout :: "string list"
  stderr :: "string list"
  written :: "(string \<times> string) list"

definition loadSchema :: "golib \<Rightarrow> os \<Rightarrow> string \<Rightarrow> json result" where
  "loadSchema L E githubToken =
    (case NewRequest E ''GET'' ''https://api.github.com/graphql'' of
       Some err \<Rightarrow> Inl (TransportFailed err)
     | None \<Rightarrow>
         (case http_Do E (''bearer '' @ githubToken) of
            Inl err \<Rightarrow> Inl (TransportFailed err)
          | Inr body \<Rightarrow>
              (case Decode L body of
                 Inl err \<Rightarrow> Inl (DecodeFailed err)
               | Inr schema \<Rightarrow> Inr schema)))"

text \<open>
  The loop \<^verbatim>\<open>for filename, t := range templates\<close> of \<^verbatim>\<open>run\<close>, over the entries in the
  order in which the iteration yields them.
\<close>

fun run_loop ::
  "golib \<Rightarrow> os \<Rightarrow> (string \<times> template) list \<Rightarrow> json \<Rightarrow> world \<Rightarrow> error option \<times> world" where
  "run_loop L E [] schema w = (None, w)"
| "run_loop L E ((filename, t) # rest) schema w =
    (case t L schema of
       Inl err \<Rightarrow> (Some err, w)
     | Inr (buf, schema') \<Rightarrow>
         (case format_Source L buf of
            Inl err \<Rightarrow>
              (let out = ''// gofmt error: '' @ err @ NL @ NL @ buf;
                   w1 = w\<lparr>stderr := stderr w @ [err]\<rparr>;
                   w2 = w1\<lparr>stdout := stdout w1 @ [''writing '' @ filename]\<rparr>
               in case WriteFile E filename out of
                    Some werr \<Rightarrow> (Some (WriteFailed werr), w2)
                  | None \<Rightarrow>
                      run_loop L E rest schema' (w2\<lparr>written := written w2 @ [(filename, out)]\<rparr>))
          | Inr out \<Rightarrow>
              (let w2 = w\<lparr>stdout := stdout w @ [''writing '' @ filename]\<rparr>
               in case WriteFile E filename out of
                    Some werr \<Rightarrow> (Some (WriteFailed werr), w2)
                  | None \<Rightarrow>
                      run_loop L E rest schema' (w2\<lparr>written := written w2 @ [(filename, out)]\<rparr>))))"


definition run ::
  "golib \<Rightarrow> os \<Rightarrow> (string \<times> template) list \<Rightarrow> world \<Rightarrow> error option \<times> world" where
  "run L E order w =
    (case LookupEnv E ''GITHUB_TOKEN'' of
       None \<Rightarrow> (Some TokenNotSet, w)
     | Some githubToken \<Rightarrow>
         (case loadSchema L E githubToken of
            Inl err \<Rightarrow> (Some err, w)
          | Inr schema \<Rightarrow> run_loop L E order schema w))"

text \<open>
  \<^verbatim>\<open>main\<close>: \<^verbatim>\<open>log.Fatalln\<close> ends the process with status 1; otherwise \<^verbatim>\<open>main\<close> returns
  and the status is 0.  (The template package of current Go hands the panic of a
  template function to \<^verbatim>\<open>run\<close> as the error of \<^verbatim>\<open>Execute\<close>, which is what the model
  does; where it does not, the panic ends the process at the same point with status 2.)
\<close>

definition main :: "golib \<Rightarrow> os \<Rightarrow> (string \<times> template) list \<Rightarrow> world \<Rightarrow> nat \<times> world" where
  "main L E order w =
    (case run L E order w of
       (None, w') \<Rightarrow> (0, w')
     | (Some err, w') \<Rightarrow> (1, w'))"

section \<open>Example documents\<close>


definition ex_value :: "string \<Rightarrow> string \<Rightarrow> json" where
  "ex_value n d = JObject [(''name'', JString n), (''description'', JString d)]"

definition ex_type :: "string \<Rightarrow> string \<Rightarrow> string \<Rightarrow> json list \<Rightarrow> json list \<Rightarrow> json" where
  "ex_type k n d vals flds =
    JObject [(''kind'', JString k), (''name'', JString n), (''description'', JString d),
      (''enumValues'', JArray vals), (''inputFields'', JArray flds)]"

definition ex_doc :: "json list \<Rightarrow> json" where
  "ex_doc types =
    JObject [(''data'', JObject [(''__schema'', JObject [(''types'', JArray types)])])]"

definition ex_State :: json where
  "ex_State = ex_type ''ENUM'' ''State'' ''The states'' [ex_value ''OPEN'' ''An open issue''] []"

definition ex_TypeKind :: json where
  "ex_TypeKind = ex_type ''ENUM'' ''__TypeKind'' ''The kinds'' [] []"

definition ex_Filter :: json where
  "ex_Filter = ex_type ''INPUT_OBJECT'' ''__Filter'' ''A filter'' [] []"


section \<open>Notions used in the statements\<close>

text \<open>
  The specification's words for what \<^verbatim>\<open>endSentence\<close> does before it looks at the end of the
  text: lower-case the first letter, then put \<^verbatim>\<open>represents\<close> in front, unless the text
  starts with \<^verbatim>\<open>autogenerated\<close> (then \<^verbatim>\<open>is an\<close> goes in front) or with \<^verbatim>\<open>specifies\<close>
  (then nothing does).
\<close>

definition lower_first :: "golib \<Rightarrow> string \<Rightarrow> string" where
  "lower_first L s = ToLower L (take 1 s) @ drop 1 s"

definition with_verb :: "string \<Rightarrow> string" where
  "with_verb s =
    (if prefix ''autogenerated '' s then ''is an '' @ s
     else if prefix ''specifies '' s then s
     else ''represents '' @ s)"

text \<open>
  A type descriptor of kind \<open>k\<close>; a type descriptor whose name starts with the reserved
  prefix; an input field whose type reference is of kind \<^verbatim>\<open>NON_NULL\<close>.
\<close>

definition has_kind :: "string \<Rightarrow> json \<Rightarrow> bool" where
  "has_kind k v = (case v of JObject m \<Rightarrow> field m ''kind'' = JString k | _ \<Rightarrow> False)"

definition internal_name :: "json \<Rightarrow> bool" where
  "internal_name v =
    (case v of
       JObject m \<Rightarrow> (case field m ''name'' of JString n \<Rightarrow> internal n | _ \<Rightarrow> False)
     | _ \<Rightarrow> False)"


text \<open>
  The name under which \<^verbatim>\<open>sortByName\<close> compares an element, and what the documentation
  of \<^verbatim>\<open>sort.Slice\<close> promises for the comparison that \<^verbatim>\<open>sortByName\<close> passes: whenever
  the comparison is defined on all elements, the slice is left as a rearrangement of
  itself in which no element is smaller than an earlier one.  The documentation adds
  that the sort is not guaranteed to be stable.
\<close>

definition name_key :: "json \<Rightarrow> string" where
  "name_key v = (case name_of v of Inr n \<Rightarrow> n | Inl _ \<Rightarrow> [])"

definition sort_Slice_sorts :: "golib \<Rightarrow> bool" where
  "sort_Slice_sorts L =
    (\<forall>xs. list_all (\<lambda>v. \<not> isl (name_of v)) xs \<longrightarrow>
       mset (sort_Slice L less_name xs) = mset xs
       \<and> sorted_wrt (\<lambda>a b. \<not> less_name b a) (sort_Slice L less_name xs))"

text \<open>
  Two enum types with the same name, and a library that differs from \<open>example_lib\<close> in
  its sort only: it sorts the reversed slice.
\<close>

definition ex_A1 :: json where
  "ex_A1 = ex_type ''ENUM'' ''A'' ''One'' [] []"

definition ex_A2 :: json where
  "ex_A2 = ex_type ''ENUM'' ''A'' ''Two'' [] []"

definition reversing_lib :: golib where
  "reversing_lib = example_lib\<lparr>sort_Slice := (\<lambda>lt xs. insertion_sort lt (rev xs))\<rparr>"



text \<open>
  Surroundings for evaluating examples: the token is set, the request is answered, every
  write succeeds; \<open>ex_bare_os\<close> lacks the token, \<open>ex_failing_os\<close> refuses to write
  \<^verbatim>\<open>input.go\<close>.  \<open>ex_decoding_lib\<close> decodes the answer into a document with one enum
  type.
\<close>

definition ex_os :: os where
  "ex_os =
    \<lparr> LookupEnv = (\<lambda>k. if k = ''GITHUB_TOKEN'' then Some ''token'' else None),
      NewRequest = (\<lambda>m u. None),
      http_Do = (\<lambda>auth. if auth = ''bearer token'' then Inr ''{}'' else Inl ''refused''),
      WriteFile = (\<lambda>f c. None) \<rparr>"

definition ex_decoding_lib :: golib where
  "ex_decoding_lib = example_lib\<lparr>Decode := (\<lambda>body. Inr (ex_doc [ex_A1]))\<rparr>"

definition ex_world :: world where
  "ex_world = \<lparr> stdout = [], stderr = [], written = [] \<rparr>"



section \<open>Equations of the type-string resolver\<close>

declare typeString.simps [simp del]

text \<open>The three branches of the switch, one equation each.\<close>

lemma typeString_NON_NULL:
  "field t ''kind'' = JString ''NON_NULL'' \<Longrightarrow> field t ''ofType'' = JObject x \<Longrightarrow>
    typeString t =
      (case typeString x of
         Inl e \<Rightarrow> Inl e
       | Inr s \<Rightarrow> if \<not> prefix ''*'' s then Inl (NullableWithoutStar s) else Inr (drop 1 s))"
  by (subst typeString.simps) simp

lemma typeString_LIST:
  "field t ''kind'' = JString ''LIST'' \<Longrightarrow> field t ''ofType'' = JObject x \<Longrightarrow>
    typeString t = (case typeString x of Inl e \<Rightarrow> Inl e | Inr s \<Rightarrow> Inr (''*[]'' @ s))"
  by (subst typeString.simps) simp

lemma typeString_default:
  "field t ''kind'' \<noteq> JString ''NON_NULL'' \<Longrightarrow> field t ''kind'' \<noteq> JString ''LIST'' \<Longrightarrow>
    typeString t = (case field t ''name'' of JString n \<Rightarrow> Inr (''*'' @ n) | _ \<Rightarrow> Inl InterfaceConversion)"
  by (subst typeString.simps) simp

lemma typeString_starred:
  "field x ''kind'' \<noteq> JString ''NON_NULL'' \<Longrightarrow> typeString x = Inr s \<Longrightarrow> \<exists>r. s = CHR ''*'' # r"
  by (subst (asm) typeString.simps)
     (auto split: if_splits json.splits sum.splits)

lemma field_named [simp]:
  "field (named k n) ''kind'' = JString k"
  "field (named k n) ''name'' = JString n"
  "field (named k n) ''ofType'' = JNull"
  by (simp_all add: field_def named_def)

lemma field_wrapper [simp]:
  "field (wrapper k x) ''kind'' = JString k"
  "field (wrapper k x) ''name'' = JNull"
  "field (wrapper k x) ''ofType'' = JObject x"
  by (simp_all add: field_def wrapper_def)

lemma typeString_named [simp]:
  "k \<noteq> ''NON_NULL'' \<Longrightarrow> k \<noteq> ''LIST'' \<Longrightarrow> typeString (named k n) = Inr (CHR ''*'' # n)"
  by (simp add: typeString_default)

lemma typeString_wrapper_LIST [simp]:
  "typeString (wrapper ''LIST'' x) =
    (case typeString x of Inl e \<Rightarrow> Inl e | Inr s \<Rightarrow> Inr (''*[]'' @ s))"
  by (rule typeString_LIST) simp_all

lemma typeString_wrapper_NON_NULL [simp]:
  "typeString (wrapper ''NON_NULL'' x) =
    (case typeString x of
       Inl e \<Rightarrow> Inl e
     | Inr s \<Rightarrow> if \<not> prefix ''*'' s then Inl (NullableWithoutStar s) else Inr (drop 1 s))"
  by (rule typeString_NON_NULL) simp_all

section \<open>Properties of the type-string resolver\<close>

text \<open>
  Claim C1, as stated: for a node \<open>X\<close> whose kind is not \<^verbatim>\<open>NON_NULL\<close> the branch of
  \<^verbatim>\<open>typeString\<close> that panics is never taken.  It fails: a \<^verbatim>\<open>LIST\<close> whose element
  type is a \<^verbatim>\<open>NON_NULL\<close> of a \<^verbatim>\<open>NON_NULL\<close> of \<^verbatim>\<open>Int\<close> has kind \<^verbatim>\<open>LIST\<close>, and both
  resolving it and resolving \<^verbatim>\<open>NON_NULL\<close> of it end in that panic, raised for the
  inner string \<^verbatim>\<open>Int\<close>.
\<close>

theorem typeString_panic_under_LIST:
  "field (wrapper ''LIST'' (wrapper ''NON_NULL'' (wrapper ''NON_NULL'' (named ''SCALAR'' ''Int''))))
      ''kind'' \<noteq> JString ''NON_NULL''
   \<and> typeString (wrapper ''LIST'' (wrapper ''NON_NULL'' (wrapper ''NON_NULL'' (named ''SCALAR'' ''Int''))))
      = Inl (NullableWithoutStar ''Int'')
   \<and> typeString (wrapper ''NON_NULL''
        (wrapper ''LIST'' (wrapper ''NON_NULL'' (wrapper ''NON_NULL'' (named ''SCALAR'' ''Int'')))))
      = Inl (NullableWithoutStar ''Int'')"
  by simp

text \<open>
  Claim C1, amended: let \<open>t\<close> be a \<^verbatim>\<open>NON_NULL\<close> node around a node \<open>x\<close> whose kind is
  not \<^verbatim>\<open>NON_NULL\<close>.  Whenever resolving \<open>x\<close> returns a string, that string begins with
  the marker \<^verbatim>\<open>*\<close> and resolving \<open>t\<close> returns it with exactly this first character
  removed, so the check of \<open>t\<close> itself never panics; and whenever resolving \<open>x\<close> fails,
  resolving \<open>t\<close> fails in the same way.
\<close>

theorem typeString_NON_NULL_strips_star:
  assumes "field t ''kind'' = JString ''NON_NULL''"
    and "field t ''ofType'' = JObject x"
    and "field x ''kind'' \<noteq> JString ''NON_NULL''"
  shows "(\<forall>s. typeString x = Inr s \<longrightarrow> (\<exists>r. s = CHR ''*'' # r \<and> typeString t = Inr r))
       \<and> (\<forall>e. typeString x = Inl e \<longrightarrow> typeString t = Inl e)"
proof (intro conjI allI impI)
  fix s assume s: "typeString x = Inr s"
  from typeString_starred [OF assms(3) s] obtain r where r: "s = CHR ''*'' # r" ..
  with s show "\<exists>r. s = CHR ''*'' # r \<and> typeString t = Inr r"
    by (simp add: typeString_NON_NULL [OF assms(1,2)])
next
  fix e assume "typeString x = Inl e"
  then show "typeString t = Inl e"
    by (simp add: typeString_NON_NULL [OF assms(1,2)])
qed

theorem typeString_NON_NULL_strips_star_witness:
  "typeString (wrapper ''LIST'' (named ''SCALAR'' ''Int'')) = Inr ''*[]*Int''
   \<and> typeString (wrapper ''NON_NULL'' (wrapper ''LIST'' (named ''SCALAR'' ''Int''))) = Inr ''[]*Int''"
  using typeString_NON_NULL_strips_star
    [of "wrapper ''NON_NULL'' (wrapper ''LIST'' (named ''SCALAR'' ''Int''))"
        "wrapper ''LIST'' (named ''SCALAR'' ''Int'')"]
  by simp

text \<open>
  Claim C2: for a \<^verbatim>\<open>LIST\<close> node \<open>t\<close> around a node \<open>x\<close>, resolving \<open>t\<close> gives the
  marker \<^verbatim>\<open>*\<close>, then the sequence marker \<^verbatim>\<open>[]\<close>, then the string that resolving \<open>x\<close>
  gives; when resolving \<open>x\<close> fails, resolving \<open>t\<close> fails in the same way.
\<close>

theorem typeString_LIST_wraps:
  assumes "field t ''kind'' = JString ''LIST''"
    and "field t ''ofType'' = JObject x"
  shows "typeString t = bind (typeString x) (\<lambda>s. Inr (''*'' @ ''[]'' @ s))"
  by (simp add: typeString_LIST [OF assms] bind_def split: sum.splits)

theorem typeString_LIST_wraps_witness:
  "typeString (wrapper ''LIST'' (wrapper ''NON_NULL'' (named ''INPUT_OBJECT'' ''IssueOrder'')))
     = Inr ''*[]IssueOrder''"
  using typeString_LIST_wraps
    [of "wrapper ''LIST'' (wrapper ''NON_NULL'' (named ''INPUT_OBJECT'' ''IssueOrder''))"
        "wrapper ''NON_NULL'' (named ''INPUT_OBJECT'' ''IssueOrder'')"]
  by (simp add: bind_def)

section \<open>Properties of \<^verbatim>\<open>endSentence\<close>\<close>

lemma suffix_dots_snoc: "suffix ''..'' (b @ ''.'') = suffix ''.'' b"
  by (metis append_Cons append_Nil same_suffix_suffix suffix_order.refl suffix_snoc
      snoc_suffix_snoc)

lemma suffix_dots_dot: "suffix ''..'' b \<Longrightarrow> suffix ''.'' b"
  by (auto simp: suffix_def)

text \<open>
  Claim C6, as stated: the string that \<^verbatim>\<open>endSentence\<close> returns ends with exactly one
  period.  It fails for a description that ends with two periods: nothing is removed, so
  the result ends with two.
\<close>

theorem endSentence_keeps_two_periods:
  "endSentence example_lib ''An open issue..'' = Inr ''represents an open issue..''"
  by (simp add: endSentence_def example_lib_def ascii_lower_def Let_def suffix_to_prefix)

text \<open>
  Claim C6, amended: for every description \<open>s\<close> that is not empty, \<^verbatim>\<open>endSentence\<close>
  returns the text \<open>with_verb (lower_first L s)\<close> as it is when that text ends with a
  period, and with one period appended otherwise.  So the result always ends with a
  period, and it ends with two exactly when the text before the check already did.
\<close>

theorem endSentence_result:
  assumes "s \<noteq> []"
  shows "\<exists>r. endSentence L s = Inr r
    \<and> r = (if suffix ''.'' (with_verb (lower_first L s)) then with_verb (lower_first L s)
           else with_verb (lower_first L s) @ ''.'')
    \<and> suffix ''.'' r
    \<and> suffix ''..'' r = suffix ''..'' (with_verb (lower_first L s))"
  using assms
  by (cases s)
     (auto simp: endSentence_def with_verb_def lower_first_def Let_def suffix_dots_snoc
           dest: suffix_dots_dot)

theorem endSentence_result_witness:
  "endSentence example_lib ''Autogenerated input type of AddComment''
     = Inr ''is an autogenerated input type of AddComment.''
   \<and> with_verb (lower_first example_lib ''Autogenerated input type of AddComment'')
     = ''is an autogenerated input type of AddComment''"
  using endSentence_result [of "''Autogenerated input type of AddComment''" example_lib]
  by (simp add: with_verb_def lower_first_def example_lib_def ascii_lower_def
        suffix_to_prefix)

text \<open>
  Claim C10: on the empty description \<^verbatim>\<open>endSentence\<close> does not return a value, it
  stops with the out-of-range panic of \<^verbatim>\<open>s[0:1]\<close>; and the empty description is the
  only one on which it fails.
\<close>

theorem endSentence_empty:
  "endSentence L [] = Inl SliceOutOfRange \<and> isl (endSentence L s) = (s = [])"
  by (cases s) (simp_all add: endSentence_def Let_def)

lemma ex_empty_description:
  "tmpl_enum example_lib (ex_type ''ENUM'' ''State'' [] [] []) = Inl SliceOutOfRange"
  by code_simp

theorem endSentence_empty_witness:
  "endSentence example_lib [] = Inl SliceOutOfRange
   \<and> isl (endSentence example_lib []) \<and> \<not> isl (endSentence example_lib ''A closed issue.'')
   \<and> tmpl_enum example_lib (ex_type ''ENUM'' ''State'' [] [] []) = Inl SliceOutOfRange"
  using endSentence_empty [of example_lib "[]"]
    endSentence_empty [of example_lib "''A closed issue.''"]
    ex_empty_description
  by simp

section \<open>Properties of the templates\<close>

lemma bind_Inr: "bind r f = Inr y \<longleftrightarrow> (\<exists>x. r = Inr x \<and> f x = Inr y)"
  by (cases r) (simp_all add: bind_def)

lemma bind_Inr_simp [simp]: "bind (Inr x) f = f x"
  by (simp add: bind_def)

lemma bind_Inl_simp [simp]: "bind (Inl e) f = Inl e"
  by (simp add: bind_def)

lemma want_string_Inr: "want_string v = Inr s \<longleftrightarrow> v = JString s"
  by (cases v) auto


lemma want_map_Inr: "want_map v = Inr s \<longleftrightarrow> v = JObject s"
  by (cases v) auto

text \<open>
  A \<^verbatim>\<open>range\<close> whose body is an \<^verbatim>\<open>if\<close> around a call renders the calls for the elements
  that pass the condition, in the order of the list.
\<close>

lemma range_tmpl_if:
  assumes "range_tmpl body xs = Inr out"
    and "\<And>x s. x \<in> set xs \<Longrightarrow> body x = Inr s \<Longrightarrow>
          (if P x then \<exists>d. g x = Inr d \<and> s = w d else s = [])"
  shows "\<exists>ds. map g (filter P xs) = map Inr ds \<and> out = concat (map w ds)"
  using assms
proof (induction xs arbitrary: out)
  case Nil
  then show ?case by simp
next
  case (Cons x xs)
  from Cons.prems(1) obtain a b where a: "body x = Inr a" and b: "range_tmpl body xs = Inr b"
    and out: "out = a @ b"
    by (auto simp: bind_Inr)
  have "\<exists>ds. map g (filter P xs) = map Inr ds \<and> b = concat (map w ds)"
  proof (rule Cons.IH [OF b])
    fix y s assume "y \<in> set xs" "body y = Inr s"
    then show "if P y then \<exists>d. g y = Inr d \<and> s = w d else s = []"
      using Cons.prems(2) [of y s] by simp
  qed
  then obtain ds where ds: "map g (filter P xs) = map Inr ds" "b = concat (map w ds)"
    by blast
  have x: "if P x then \<exists>d. g x = Inr d \<and> a = w d else a = []"
    using Cons.prems(2) [of x a] a by simp
  show ?case
  proof (cases "P x")
    case True
    with x obtain d where "g x = Inr d" "a = w d" by auto
    with True ds out have
      "map g (filter P (x # xs)) = map Inr (d # ds) \<and> out = concat (map w (d # ds))"
      by simp
    then show ?thesis by blast
  next
    case False
    with x ds out show ?thesis by auto
  qed
qed

lemma enum_item_Inr:
  "enum_item L v = Inr s \<Longrightarrow>
    (if has_kind ''ENUM'' v \<and> \<not> internal_name v
     then \<exists>d. tmpl_enum L v = Inr d \<and> s = NL @ d @ NL else s = [])"
  by (auto simp: enum_item_def bind_Inr want_map_Inr want_string_Inr has_kind_def
        internal_name_def split: if_splits)

lemma input_item_Inr:
  "input_item L v = Inr s \<Longrightarrow>
    (if has_kind ''INPUT_OBJECT'' v
     then \<exists>d. tmpl_inputObject L v = Inr d \<and> s = NL @ d @ NL else s = [])"
  by (auto simp: input_item_def bind_Inr want_map_Inr want_string_Inr has_kind_def
        split: if_splits)

lemma enum_go_Inr:
  assumes "enum_go L schema = Inr (out, schema')"
  shows "\<exists>types sorted ds.
      schema_types schema = Inr types \<and> sortByName L types = Inr sorted
      \<and> schema' = set_types schema sorted
      \<and> map (tmpl_enum L) (filter (\<lambda>v. has_kind ''ENUM'' v \<and> \<not> internal_name v) sorted)
          = map Inr ds
      \<and> out = enum_header @ concat (map (\<lambda>d. NL @ d @ NL) ds)"
proof -
  from assms obtain types sorted decls where
    t: "schema_types schema = Inr types" and s: "sortByName L types = Inr sorted"
    and d: "range_tmpl (enum_item L) sorted = Inr decls"
    and o: "out = enum_header @ decls" "schema' = set_types schema sorted"
    by (auto simp: enum_go_def bind_Inr)
  from range_tmpl_if [OF d, of "\<lambda>v. has_kind ''ENUM'' v \<and> \<not> internal_name v" "tmpl_enum L"
      "\<lambda>d. NL @ d @ NL"]
  obtain ds where
    "map (tmpl_enum L) (filter (\<lambda>v. has_kind ''ENUM'' v \<and> \<not> internal_name v) sorted)
       = map Inr ds"
    "decls = concat (map (\<lambda>d. NL @ d @ NL) ds)"
    using enum_item_Inr by blast
  with t s o show ?thesis by blast
qed

lemma input_go_Inr:
  assumes "input_go L schema = Inr (out, schema')"
  shows "\<exists>types names sorted ds.
      schema_types schema = Inr types \<and> inputObjects types = Inr names
      \<and> sortByName L types = Inr sorted
      \<and> schema' = set_types schema sorted
      \<and> map (tmpl_inputObject L) (filter (has_kind ''INPUT_OBJECT'') sorted) = map Inr ds
      \<and> out = input_header names @ concat (map (\<lambda>d. NL @ d @ NL) ds)"
proof -
  from assms obtain types names sorted decls where
    t: "schema_types schema = Inr types" and n: "inputObjects types = Inr names"
    and s: "sortByName L types = Inr sorted"
    and d: "range_tmpl (input_item L) sorted = Inr decls"
    and o: "out = input_header names @ decls" "schema' = set_types schema sorted"
    by (auto simp: input_go_def bind_Inr)
  from range_tmpl_if [OF d, of "has_kind ''INPUT_OBJECT''" "tmpl_inputObject L"
      "\<lambda>d. NL @ d @ NL"]
  obtain ds where
    "map (tmpl_inputObject L) (filter (has_kind ''INPUT_OBJECT'') sorted) = map Inr ds"
    "decls = concat (map (\<lambda>d. NL @ d @ NL) ds)"
    using input_item_Inr by blast
  with t n s o show ?thesis by blast
qed

text \<open>
  Claim C3, as stated: in both files a type whose name starts with \<^verbatim>\<open>__\<close> produces no
  declaration.  It fails for \<^verbatim>\<open>input.go\<close>: the condition of that template is
  \<^verbatim>\<open>eq .kind "INPUT_OBJECT"\<close> alone, so an input object named \<^verbatim>\<open>__Filter\<close> is listed
  in the summary line and declared.
\<close>

theorem input_go_declares_internal:
  "input_go example_lib (ex_doc [ex_TypeKind, ex_State, ex_Filter]) =
    Inr (input_header [''__Filter''] @ NL
         @ ''// __Filter represents a filter.'' @ NL
         @ ''type __Filter struct {'' @ NL
         @ NL
         @ ''}'' @ NL,
         ex_doc [ex_State, ex_Filter, ex_TypeKind])"
  by code_simp

text \<open>
  Claim C3, amended: what \<^verbatim>\<open>enum.go\<close> renders after its header is one declaration
  (between two line breaks) for each type of the sorted list that is of kind \<^verbatim>\<open>ENUM\<close>
  and whose name does not start with \<^verbatim>\<open>__\<close>, in the order of the sorted list, and
  nothing else; what \<^verbatim>\<open>input.go\<close> renders after its header is one declaration for each
  type of the sorted list that is of kind \<^verbatim>\<open>INPUT_OBJECT\<close>, whatever its name.
\<close>

theorem rendered_types_filtered:
  "(enum_go L schema = Inr (out, schema') \<longrightarrow>
      (\<exists>types sorted ds.
        schema_types schema = Inr types \<and> sortByName L types = Inr sorted
        \<and> map (tmpl_enum L) (filter (\<lambda>v. has_kind ''ENUM'' v \<and> \<not> internal_name v) sorted)
            = map Inr ds
        \<and> out = enum_header @ concat (map (\<lambda>d. NL @ d @ NL) ds)))
   \<and> (input_go L schema = Inr (out, schema') \<longrightarrow>
      (\<exists>types sorted names ds.
        schema_types schema = Inr types \<and> sortByName L types = Inr sorted
        \<and> inputObjects types = Inr names
        \<and> map (tmpl_inputObject L) (filter (has_kind ''INPUT_OBJECT'') sorted) = map Inr ds
        \<and> out = input_header names @ concat (map (\<lambda>d. NL @ d @ NL) ds)))"
proof (intro conjI impI)
  assume "enum_go L schema = Inr (out, schema')"
  from enum_go_Inr [OF this] show
    "\<exists>types sorted ds.
        schema_types schema = Inr types \<and> sortByName L types = Inr sorted
        \<and> map (tmpl_enum L) (filter (\<lambda>v. has_kind ''ENUM'' v \<and> \<not> internal_name v) sorted)
            = map Inr ds
        \<and> out = enum_header @ concat (map (\<lambda>d. NL @ d @ NL) ds)"
    by blast
next
  assume "input_go L schema = Inr (out, schema')"
  from input_go_Inr [OF this] show
    "\<exists>types sorted names ds.
        schema_types schema = Inr types \<and> sortByName L types = Inr sorted
        \<and> inputObjects types = Inr names
        \<and> map (tmpl_inputObject L) (filter (has_kind ''INPUT_OBJECT'') sorted) = map Inr ds
        \<and> out = input_header names @ concat (map (\<lambda>d. NL @ d @ NL) ds)"
    by blast
qed

lemma ex_enum_go:
  "enum_go example_lib (ex_doc [ex_TypeKind, ex_State, ex_Filter]) =
    Inr (enum_header @ NL
         @ ''// State represents the states.'' @ NL
         @ ''type State string'' @ NL
         @ NL
         @ ''// The states.'' @ NL
         @ ''const ('' @ NL
         @ TAB @ ''StateOpen State = '' @ DQ @ ''OPEN'' @ DQ @ '' // An open issue.'' @ NL
         @ '')'' @ NL,
         ex_doc [ex_State, ex_Filter, ex_TypeKind])"
  by code_simp

lemma ex_filter_enum:
  "filter (\<lambda>v. has_kind ''ENUM'' v \<and> \<not> internal_name v) [ex_State, ex_Filter, ex_TypeKind]
    = [ex_State]"
  by code_simp

theorem rendered_types_filtered_witness:
  "enum_go example_lib (ex_doc [ex_TypeKind, ex_State, ex_Filter]) =
    Inr (enum_header @ NL
         @ ''// State represents the states.'' @ NL
         @ ''type State string'' @ NL
         @ NL
         @ ''// The states.'' @ NL
         @ ''const ('' @ NL
         @ TAB @ ''StateOpen State = '' @ DQ @ ''OPEN'' @ DQ @ '' // An open issue.'' @ NL
         @ '')'' @ NL,
         ex_doc [ex_State, ex_Filter, ex_TypeKind])
   \<and> (\<exists>types sorted ds.
        schema_types (ex_doc [ex_TypeKind, ex_State, ex_Filter]) = Inr types
        \<and> sortByName example_lib types = Inr sorted
        \<and> map (tmpl_enum example_lib)
            (filter (\<lambda>v. has_kind ''ENUM'' v \<and> \<not> internal_name v) sorted) = map Inr ds
        \<and> enum_header @ NL
         @ ''// State represents the states.'' @ NL
         @ ''type State string'' @ NL
         @ NL
         @ ''// The states.'' @ NL
         @ ''const ('' @ NL
         @ TAB @ ''StateOpen State = '' @ DQ @ ''OPEN'' @ DQ @ '' // An open issue.'' @ NL
         @ '')'' @ NL = enum_header @ concat (map (\<lambda>d. NL @ d @ NL) ds))
   \<and> filter (\<lambda>v. has_kind ''ENUM'' v \<and> \<not> internal_name v) [ex_State, ex_Filter, ex_TypeKind]
        = [ex_State]"
  using rendered_types_filtered [THEN conjunct1, rule_format, OF ex_enum_go]
    ex_enum_go ex_filter_enum
  by blast







section \<open>Properties of \<^verbatim>\<open>sortByName\<close>\<close>

lemma less_name_key:
  "\<not> isl (name_of a) \<Longrightarrow> \<not> isl (name_of b) \<Longrightarrow> less_name a b = (name_key a < name_key b)"
  by (cases "name_of a"; cases "name_of b") (simp_all add: less_name_def name_key_def)

lemma sortByName_sorted:
  assumes L: "sort_Slice_sorts L" and s: "sortByName L types = Inr srt"
  shows "mset srt = mset types \<and> sorted (map name_key srt)"
proof (cases "length types < 2")
  case True
  with s have "srt = types" by (simp add: sortByName_def)
  moreover from True have "sorted (map name_key types)"
    by (cases types rule: list.exhaust[case_product list.exhaust]) auto
  ultimately show ?thesis by simp
next
  case False
  with s have v: "list_all (\<lambda>v. \<not> isl (name_of v)) types"
    and srt: "srt = sort_Slice L less_name types"
    by (auto simp: sortByName_def split: if_splits)
  from L v srt have m: "mset srt = mset types"
    and w: "sorted_wrt (\<lambda>a b. \<not> less_name b a) srt"
    by (auto simp: sort_Slice_sorts_def)
  from m have "set srt = set types" by (rule mset_eq_setD)
  with v have ok: "\<And>a. a \<in> set srt \<Longrightarrow> \<not> isl (name_of a)"
    by (simp add: list_all_iff)
  have "sorted_wrt (\<lambda>a b. name_key a \<le> name_key b) srt"
    by (rule sorted_wrt_mono_rel [OF _ w]) (auto simp: less_name_key ok)
  then have "sorted (map name_key srt)"
    by (simp add: sorted_map)
  with m show ?thesis by simp
qed

lemma sortByName_strict:
  assumes L: "sort_Slice_sorts L" and s: "sortByName L types = Inr srt"
    and d: "distinct (map name_key types)"
  shows "sorted_wrt (<) (map name_key srt)"
proof -
  from sortByName_sorted [OF L s] have m: "mset srt = mset types"
    and o: "sorted (map name_key srt)" by simp_all
  from m have "mset (map name_key srt) = mset (map name_key types)" by simp
  with d have "distinct (map name_key srt)"
    using mset_eq_imp_distinct_iff by blast
  with o show ?thesis by (simp add: strict_sorted_iff)
qed

lemma mset_insert_sorted: "mset (insert_sorted lt x ys) = add_mset x (mset ys)"
  by (induction ys) auto

lemma set_insert_sorted: "set (insert_sorted lt x ys) = insert x (set ys)"
  by (induction ys) auto

lemma sorted_insert_sorted:
  "(\<And>y. y \<in> set ys \<Longrightarrow> lt x y = (k x < k y)) \<Longrightarrow> sorted (map k ys) \<Longrightarrow>
    sorted (map k (insert_sorted lt x ys))"
  by (induction ys) (auto simp: set_insert_sorted)

lemma mset_foldr_insert: "mset (foldr (insert_sorted lt) zs []) = mset zs"
  by (induction zs) (auto simp: mset_insert_sorted)

lemma sorted_foldr_insert:
  "(\<And>a b. a \<in> set zs \<Longrightarrow> b \<in> set zs \<Longrightarrow> lt a b = (k a < k b)) \<Longrightarrow>
    sorted (map k (foldr (insert_sorted lt) zs []))"
proof (induction zs)
  case Nil
  then show ?case by simp
next
  case (Cons z zs)
  have "set (foldr (insert_sorted lt) zs []) = set zs"
    using mset_foldr_insert [of lt zs] by (metis mset_eq_setD)
  with Cons show ?case
    by (auto intro!: sorted_insert_sorted)
qed

lemma example_lib_sorts: "sort_Slice_sorts example_lib"
proof (unfold sort_Slice_sorts_def, intro allI impI)
  fix xs assume v: "list_all (\<lambda>v. \<not> isl (name_of v)) xs"
  let ?r = "sort_Slice example_lib less_name xs"
  have r: "?r = foldr (insert_sorted less_name) (rev xs) []"
    by (simp add: example_lib_def insertion_sort_def)
  have m: "mset ?r = mset xs"
    by (simp add: r mset_foldr_insert)
  then have "set ?r = set xs" by (rule mset_eq_setD)
  with v have ok: "\<And>a. a \<in> set ?r \<Longrightarrow> \<not> isl (name_of a)"
    by (simp add: list_all_iff)
  from v have "sorted (map name_key ?r)"
    unfolding r by (intro sorted_foldr_insert) (auto simp: less_name_key list_all_iff)
  then have "sorted_wrt (\<lambda>a b. name_key a \<le> name_key b) ?r"
    by (simp add: sorted_map)
  then have "sorted_wrt (\<lambda>a b. \<not> less_name b a) ?r"
    by (rule sorted_wrt_mono_rel [rotated]) (auto simp: less_name_key ok)
  with m show "mset ?r = mset xs \<and> sorted_wrt (\<lambda>a b. \<not> less_name b a) ?r"
    by simp
qed

lemma reversing_lib_sorts: "sort_Slice_sorts reversing_lib"
proof (unfold sort_Slice_sorts_def, intro allI impI)
  fix xs assume v: "list_all (\<lambda>v. \<not> isl (name_of v)) xs"
  let ?r = "sort_Slice reversing_lib less_name xs"
  have r: "?r = foldr (insert_sorted less_name) xs []"
    by (simp add: reversing_lib_def insertion_sort_def)
  have m: "mset ?r = mset xs"
    by (simp add: r mset_foldr_insert)
  then have "set ?r = set xs" by (rule mset_eq_setD)
  with v have ok: "\<And>a. a \<in> set ?r \<Longrightarrow> \<not> isl (name_of a)"
    by (simp add: list_all_iff)
  from v have "sorted (map name_key ?r)"
    unfolding r by (intro sorted_foldr_insert) (auto simp: less_name_key list_all_iff)
  then have "sorted_wrt (\<lambda>a b. name_key a \<le> name_key b) ?r"
    by (simp add: sorted_map)
  then have "sorted_wrt (\<lambda>a b. \<not> less_name b a) ?r"
    by (rule sorted_wrt_mono_rel [rotated]) (auto simp: less_name_key ok)
  with m show "mset ?r = mset xs \<and> sorted_wrt (\<lambda>a b. \<not> less_name b a) ?r"
    by simp
qed

text \<open>
  Stability does not follow from what \<^verbatim>\<open>sort.Slice\<close> promises: \<open>reversing_lib\<close> keeps
  the promise and exchanges two elements of the same name.
\<close>

lemma sort_Slice_promise_not_stable:
  "sort_Slice_sorts reversing_lib
   \<and> sortByName reversing_lib [ex_A1, ex_A2] = Inr [ex_A2, ex_A1]
   \<and> name_key ex_A1 = name_key ex_A2 \<and> ex_A1 \<noteq> ex_A2"
proof -
  have "sortByName reversing_lib [ex_A1, ex_A2] = Inr [ex_A2, ex_A1]
      \<and> name_key ex_A1 = name_key ex_A2 \<and> ex_A1 \<noteq> ex_A2"
    by code_simp
  with reversing_lib_sorts show ?thesis by simp
qed

text \<open>
  Claim C5, as stated: the declarations stand in strictly ascending order of their
  names.  It fails when two types carry the same name: both are declared, one after the
  other.
\<close>

theorem enum_go_repeats_name:
  "enum_go example_lib (ex_doc [ex_A1, ex_A2]) =
    Inr (enum_header @ NL
         @ ''// A represents one.'' @ NL
         @ ''type A string'' @ NL
         @ NL
         @ ''// One.'' @ NL
         @ ''const ('' @ NL
         @ '')'' @ NL
         @ NL
         @ ''// A represents two.'' @ NL
         @ ''type A string'' @ NL
         @ NL
         @ ''// Two.'' @ NL
         @ ''const ('' @ NL
         @ '')'' @ NL,
         ex_doc [ex_A1, ex_A2])
   \<and> sortByName example_lib [ex_A1, ex_A2] = Inr [ex_A1, ex_A2]
   \<and> map name_key [ex_A1, ex_A2] = [''A'', ''A'']
   \<and> \<not> sorted_wrt (<) (map name_key [ex_A1, ex_A2])"
  by code_simp

text \<open>
  Claim C5, amended: provided \<^verbatim>\<open>sort.Slice\<close> keeps its promise, \<^verbatim>\<open>sortByName\<close> returns a
  rearrangement of its input that ascends by name, strictly when the names of the input
  are pairwise distinct; and the types declared in either file are taken from that list
  in its order, so the declarations ascend by name too, strictly when the names are
  pairwise distinct.  Nothing is said about the order in which elements of the same name
  come out.
\<close>

theorem declarations_ascending:
  assumes "sort_Slice_sorts L"
  shows "(sortByName L types = Inr srt \<longrightarrow>
        mset srt = mset types \<and> sorted (map name_key srt)
        \<and> (distinct (map name_key types) \<longrightarrow> sorted_wrt (<) (map name_key srt)))
   \<and> (enum_go L schema = Inr (out, schema') \<longrightarrow>
        (\<exists>ts sorted' decls ds.
          schema_types schema = Inr ts \<and> sortByName L ts = Inr sorted'
          \<and> decls = filter (\<lambda>v. has_kind ''ENUM'' v \<and> \<not> internal_name v) sorted'
          \<and> map (tmpl_enum L) decls = map Inr ds
          \<and> out = enum_header @ concat (map (\<lambda>d. NL @ d @ NL) ds)
          \<and> sorted (map name_key decls)
          \<and> (distinct (map name_key ts) \<longrightarrow> sorted_wrt (<) (map name_key decls))))
   \<and> (input_go L schema = Inr (out, schema') \<longrightarrow>
        (\<exists>ts sorted' names decls ds.
          schema_types schema = Inr ts \<and> sortByName L ts = Inr sorted'
          \<and> decls = filter (has_kind ''INPUT_OBJECT'') sorted'
          \<and> map (tmpl_inputObject L) decls = map Inr ds
          \<and> out = input_header names @ concat (map (\<lambda>d. NL @ d @ NL) ds)
          \<and> sorted (map name_key decls)
          \<and> (distinct (map name_key ts) \<longrightarrow> sorted_wrt (<) (map name_key decls))))"
proof (intro conjI impI)
  assume s: "sortByName L types = Inr srt"
  from sortByName_sorted [OF assms s]
  show "mset srt = mset types" and "sorted (map name_key srt)" by simp_all
  assume "distinct (map name_key types)"
  with assms s show "sorted_wrt (<) (map name_key srt)" by (rule sortByName_strict)
next
  assume "enum_go L schema = Inr (out, schema')"
  from enum_go_Inr [OF this] obtain ts sorted' ds where
    t: "schema_types schema = Inr ts" and s: "sortByName L ts = Inr sorted'"
    and d: "map (tmpl_enum L)
        (filter (\<lambda>v. has_kind ''ENUM'' v \<and> \<not> internal_name v) sorted') = map Inr ds"
    and o: "out = enum_header @ concat (map (\<lambda>d. NL @ d @ NL) ds)"
    by blast
  let ?decls = "filter (\<lambda>v. has_kind ''ENUM'' v \<and> \<not> internal_name v) sorted'"
  have a: "sorted (map name_key ?decls)"
    using sortByName_sorted [OF assms s] by (simp add: sorted_filter)
  have b: "distinct (map name_key ts) \<longrightarrow> sorted_wrt (<) (map name_key ?decls)"
    using sortByName_strict [OF assms s]
    by (auto simp: sorted_wrt_map intro: sorted_wrt_filter)
  from t s d o a b show "\<exists>ts sorted' decls ds.
          schema_types schema = Inr ts \<and> sortByName L ts = Inr sorted'
          \<and> decls = filter (\<lambda>v. has_kind ''ENUM'' v \<and> \<not> internal_name v) sorted'
          \<and> map (tmpl_enum L) decls = map Inr ds
          \<and> out = enum_header @ concat (map (\<lambda>d. NL @ d @ NL) ds)
          \<and> sorted (map name_key decls)
          \<and> (distinct (map name_key ts) \<longrightarrow> sorted_wrt (<) (map name_key decls))"
    by blast
next
  assume "input_go L schema = Inr (out, schema')"
  from input_go_Inr [OF this] obtain ts names sorted' ds where
    t: "schema_types schema = Inr ts" and s: "sortByName L ts = Inr sorted'"
    and d: "map (tmpl_inputObject L) (filter (has_kind ''INPUT_OBJECT'') sorted') = map Inr ds"
    and o: "out = input_header names @ concat (map (\<lambda>d. NL @ d @ NL) ds)"
    by blast
  let ?decls = "filter (has_kind ''INPUT_OBJECT'') sorted'"
  have a: "sorted (map name_key ?decls)"
    using sortByName_sorted [OF assms s] by (simp add: sorted_filter)
  have b: "distinct (map name_key ts) \<longrightarrow> sorted_wrt (<) (map name_key ?decls)"
    using sortByName_strict [OF assms s]
    by (auto simp: sorted_wrt_map intro: sorted_wrt_filter)
  from t s d o a b show "\<exists>ts sorted' names decls ds.
          schema_types schema = Inr ts \<and> sortByName L ts = Inr sorted'
          \<and> decls = filter (has_kind ''INPUT_OBJECT'') sorted'
          \<and> map (tmpl_inputObject L) decls = map Inr ds
          \<and> out = input_header names @ concat (map (\<lambda>d. NL @ d @ NL) ds)
          \<and> sorted (map name_key decls)
          \<and> (distinct (map name_key ts) \<longrightarrow> sorted_wrt (<) (map name_key decls))"
    by blast
qed

lemma ex_sortByName:
  "sortByName example_lib [ex_TypeKind, ex_State, ex_Filter]
     = Inr [ex_State, ex_Filter, ex_TypeKind]"
  by code_simp

lemma ex_names_distinct: "distinct (map name_key [ex_TypeKind, ex_State, ex_Filter])"
  by code_simp

theorem declarations_ascending_witness:
  "sort_Slice_sorts example_lib
   \<and> sortByName example_lib [ex_TypeKind, ex_State, ex_Filter]
       = Inr [ex_State, ex_Filter, ex_TypeKind]
   \<and> mset [ex_State, ex_Filter, ex_TypeKind] = mset [ex_TypeKind, ex_State, ex_Filter]
   \<and> sorted_wrt (<) (map name_key [ex_State, ex_Filter, ex_TypeKind])"
  using declarations_ascending [OF example_lib_sorts, THEN conjunct1, rule_format,
      OF ex_sortByName]
    example_lib_sorts ex_sortByName ex_names_distinct
  by blast

section \<open>Properties of the run\<close>





lemma ex_main:
  "main ex_decoding_lib ex_os templates ex_world =
    (0, \<lparr> stdout = [''writing enum.go'', ''writing input.go''],
          stderr = [''expected declaration''],
          written =
           [(''enum.go'',
             enum_header @ NL
             @ ''// A represents one.'' @ NL
             @ ''type A string'' @ NL
             @ NL
             @ ''// One.'' @ NL
             @ ''const ('' @ NL
             @ '')'' @ NL),
            (''input.go'',
             ''// gofmt error: expected declaration'' @ NL
             @ NL
             @ input_header []) ] \<rparr>)"
  by code_simp

















end
